theory Spec2Isabelle
  imports Complex_Main "HOL-Library.Multiset"
begin

section \<open>Data model\<close>

text \<open>
  The measurement types of the network, in the enumeration order of \<open>MeasurementType\<close>;
  they are the keys of \<open>MEASUREMENT_TYPE_MAPPING\<close> in \<open>const.py\<close>.
\<close>

datatype MeasurementType = AMBIENT_TEMPERATURE | RELATIVE_HUMIDITY

definition all_measurement_types :: "MeasurementType list" where
  "all_measurement_types = [AMBIENT_TEMPERATURE, RELATIVE_HUMIDITY]"

text \<open>
  \<open>AnnotatedSensor\<close>: a dataclass, so two sensors are equal when all their fields are.
  \<open>sensor_id\<close> is absent until the network has assigned one, \<open>entity_id\<close> defaults to
  \<open>None\<close>.
\<close>

record AnnotatedSensor =
  measurement_type :: MeasurementType
  sensor_id :: "int option"
  entity_id :: "string option"

text \<open>
  The options dictionary of a configuration entry. The configuration flow marks every key
  as required, so the dictionary is a record of its keys; the two sensor selections are
  lists of entity ids, in the order the selector delivered them.
\<close>

record Options =
  k_privacy :: int
  maximum_trixel_depth :: int
  outdoor_temperature_sensors :: "string list"
  outdoor_relative_humidity_sensors :: "string list"

record Data =
  trixel_lookup_service_host :: string

text \<open>\<open>options[MEASUREMENT_TYPE_MAPPING.get(measurement_type)]\<close>\<close>

fun MEASUREMENT_TYPE_MAPPING :: "MeasurementType \<Rightarrow> Options \<Rightarrow> string list" where
  "MEASUREMENT_TYPE_MAPPING AMBIENT_TEMPERATURE = outdoor_temperature_sensors"
| "MEASUREMENT_TYPE_MAPPING RELATIVE_HUMIDITY = outdoor_relative_humidity_sensors"

datatype error =
  NoHomeError
  | NoExistingConfigurationError
  | FileNotFoundError
  | ValueError
  | KeyError
  | HomeAssistantError
  | TypeError

section \<open>Reconciliation of the sensor list (\<open>IntegrationPollingClient.create\<close>)\<close>

text \<open>
  The innermost loop of the comparison: the flag \<open>entity_used\<close> starts false and is set
  by every sensor of the given type that is linked to the given entity.
\<close>

definition entity_used :: "AnnotatedSensor list \<Rightarrow> MeasurementType \<Rightarrow> string \<Rightarrow> bool" where
  "entity_used ss mt e =
     fold (\<lambda>sensor used.
             if measurement_type sensor = mt \<and> entity_id sensor = Some e then True else used)
          ss False"

text \<open>The entries appended to \<open>new_sensors\<close> for one measurement type.\<close>

definition new_for_type ::
  "AnnotatedSensor list \<Rightarrow> MeasurementType \<Rightarrow> string list \<Rightarrow> (MeasurementType \<times> string) list" where
  "new_for_type ss mt entity_ids =
     map (\<lambda>e. (mt, e)) (filter (\<lambda>e. \<not> entity_used ss mt e) entity_ids)"

text \<open>
  The list by which \<open>orphaned_sensors\<close> is extended for one measurement type: one entry
  per configured sensor, the sensor itself when it is orphaned and \<open>None\<close> otherwise.
\<close>

definition is_orphaned :: "MeasurementType \<Rightarrow> string list \<Rightarrow> AnnotatedSensor \<Rightarrow> bool" where
  "is_orphaned mt entity_ids sensor \<longleftrightarrow>
     measurement_type sensor = mt \<and> entity_id sensor \<notin> set (map Some entity_ids)"

definition orphaned_for_type ::
  "AnnotatedSensor list \<Rightarrow> MeasurementType \<Rightarrow> string list \<Rightarrow> AnnotatedSensor option list" where
  "orphaned_for_type ss mt entity_ids =
     map (\<lambda>sensor. if is_orphaned mt entity_ids sensor then Some sensor else None) ss"

text \<open>
  The loop over \<open>MeasurementType\<close>; the accumulator is the pair
  \<open>(orphaned_sensors, new_sensors)\<close>. The sensor list is not changed while the
  differences are collected.
\<close>

definition diff_step ::
  "AnnotatedSensor list \<Rightarrow> Options \<Rightarrow> MeasurementType \<Rightarrow>
   AnnotatedSensor option list \<times> (MeasurementType \<times> string) list \<Rightarrow>
   AnnotatedSensor option list \<times> (MeasurementType \<times> string) list" where
  "diff_step ss opts mt acc =
     (let entity_ids = MEASUREMENT_TYPE_MAPPING mt opts
      in (fst acc @ orphaned_for_type ss mt entity_ids,
          snd acc @ new_for_type ss mt entity_ids))"

definition find_differences ::
  "AnnotatedSensor list \<Rightarrow> Options \<Rightarrow>
   AnnotatedSensor option list \<times> (MeasurementType \<times> string) list" where
  "find_differences ss opts = fold (diff_step ss opts) all_measurement_types ([], [])"

text \<open>
  \<open>list.remove(x)\<close> deletes the first element equal to \<open>x\<close> and raises \<open>ValueError\<close>
  when there is none.
\<close>

definition list_remove :: "'a \<Rightarrow> 'a list \<Rightarrow> error + 'a list" where
  "list_remove x xs = (if x \<in> set xs then Inr (remove1 x xs) else Inl ValueError)"

text \<open>The loop that removes every entry of \<open>orphaned_sensors\<close> that is not \<open>None\<close>.\<close>

fun remove_orphaned ::
  "AnnotatedSensor option list \<Rightarrow> AnnotatedSensor list \<Rightarrow> error + AnnotatedSensor list" where
  "remove_orphaned [] ss = Inr ss"
| "remove_orphaned (None # orphaned) ss = remove_orphaned orphaned ss"
| "remove_orphaned (Some sensor # orphaned) ss =
     (case list_remove sensor ss of
        Inl e \<Rightarrow> Inl e
      | Inr ss' \<Rightarrow> remove_orphaned orphaned ss')"

text \<open>The loop that appends a basic sensor for every entry of \<open>new_sensors\<close>.\<close>

definition new_sensor :: "MeasurementType \<times> string \<Rightarrow> AnnotatedSensor" where
  "new_sensor p = \<lparr>measurement_type = fst p, sensor_id = None, entity_id = Some (snd p)\<rparr>"

definition add_new_sensors ::
  "(MeasurementType \<times> string) list \<Rightarrow> AnnotatedSensor list \<Rightarrow> AnnotatedSensor list" where
  "add_new_sensors new ss = ss @ map new_sensor new"

text \<open>The whole reconciliation of a loaded sensor list with the options.\<close>

definition reconcile_sensors ::
  "AnnotatedSensor list \<Rightarrow> Options \<Rightarrow> error + AnnotatedSensor list" where
  "reconcile_sensors ss opts =
     (let d = find_differences ss opts
      in case remove_orphaned (fst d) ss of
           Inl e \<Rightarrow> Inl e
         | Inr ss' \<Rightarrow> Inr (add_new_sensors (snd d) ss'))"

text \<open>
  Vocabulary for the statements about reconciliation: the join key of a sensor, whether the
  options still select the entity of a sensor under the sensor's own measurement type, and
  the entries of \<open>orphaned_sensors\<close> that are sensors (the ones the removal loop acts on).
\<close>

definition sensor_key :: "AnnotatedSensor \<Rightarrow> MeasurementType \<times> string option" where
  "sensor_key sensor = (measurement_type sensor, entity_id sensor)"

definition still_desired :: "Options \<Rightarrow> AnnotatedSensor \<Rightarrow> bool" where
  "still_desired opts sensor \<longleftrightarrow>
     entity_id sensor \<in> set (map Some (MEASUREMENT_TYPE_MAPPING (measurement_type sensor) opts))"

definition somes :: "'a option list \<Rightarrow> 'a list" where
  "somes os = concat (map (\<lambda>x. case x of None \<Rightarrow> [] | Some y \<Rightarrow> [y]) os)"

section \<open>The host: location and entity states\<close>

text \<open>
  A state of the host's state machine. \<open>state\<close> is a text: \<open>unavailable\<close>,
  \<open>unknown\<close>, or the text of a reading such as \<open>21.5\<close>. The attributes are a
  dictionary, so a key may be missing. \<open>last_reported\<close> is the moment of the last report
  in seconds since the epoch, as \<open>timestamp()\<close> returns it.
\<close>

record State =
  state :: string
  attributes :: "string \<rightharpoonup> string"
  last_reported :: real

text \<open>
  \<open>hass.config.latitude\<close>, \<open>hass.config.longitude\<close> and \<open>hass.states.get\<close>, which is
  called with the \<open>entity_id\<close> field of a sensor.
\<close>

record HomeAssistant =
  config_latitude :: "real option"
  config_longitude :: "real option"
  states :: "string option \<Rightarrow> State option"

definition DEFAULT_HOME_LATITUDE :: real where
  "DEFAULT_HOME_LATITUDE = 52.3731339"

definition DEFAULT_HOME_LONGITUDE :: real where
  "DEFAULT_HOME_LONGITUDE = 4.8903147"

text \<open>The constants of Home Assistant that the client uses; the degree sign is U+00B0.\<close>

definition ATTR_DEVICE_CLASS :: string where
  "ATTR_DEVICE_CLASS = ''device_class''"

definition ATTR_UNIT_OF_MEASUREMENT :: string where
  "ATTR_UNIT_OF_MEASUREMENT = ''unit_of_measurement''"

definition TEMPERATURE :: string where
  "TEMPERATURE = ''temperature''"

definition HUMIDITY :: string where
  "HUMIDITY = ''humidity''"

definition CELSIUS :: string where
  "CELSIUS = [CHR 0xB0, CHR ''C'']"

definition FAHRENHEIT :: string where
  "FAHRENHEIT = [CHR 0xB0, CHR ''F'']"

definition KELVIN :: string where
  "KELVIN = ''K''"

definition UnitOfTemperature :: "string list" where
  "UnitOfTemperature = [CELSIUS, FAHRENHEIT, KELVIN]"

fun MEASUREMENT_TYPE_DEVICE_CLASS_MAPPING :: "MeasurementType \<Rightarrow> string" where
  "MEASUREMENT_TYPE_DEVICE_CLASS_MAPPING AMBIENT_TEMPERATURE = TEMPERATURE"
| "MEASUREMENT_TYPE_DEVICE_CLASS_MAPPING RELATIVE_HUMIDITY = HUMIDITY"

text \<open>
  The values that \<open>_get_updates\<close> handles: the text of a state, which it never parses, and
  the numbers the converter is written for.
\<close>

datatype py_value = Str string | Float real

text \<open>
  Modelled from the spec: \<open>TemperatureConverter.convert\<close> belongs to Home Assistant and is
  not part of the sources. The spec calls it the standard linear/affine unit conversion:
  equal units leave the value as it is, other pairs of temperature units convert by way of
  Celsius, and a unit outside the three temperature units is an error of the converter.
  The conversion is arithmetic on the value it is given, which Python defines for numbers
  and which raises \<open>TypeError\<close> for a str.
\<close>

definition to_celsius :: "real \<Rightarrow> string \<Rightarrow> error + real" where
  "to_celsius v u =
     (if u = CELSIUS then Inr v
      else if u = FAHRENHEIT then Inr ((v - 32) / 1.8)
      else if u = KELVIN then Inr (v - 273.15)
      else Inl HomeAssistantError)"

definition from_celsius :: "real \<Rightarrow> string \<Rightarrow> error + real" where
  "from_celsius c u =
     (if u = CELSIUS then Inr c
      else if u = FAHRENHEIT then Inr (c * 1.8 + 32)
      else if u = KELVIN then Inr (c + 273.15)
      else Inl HomeAssistantError)"

definition TemperatureConverter_convert ::
  "py_value \<Rightarrow> string \<Rightarrow> string \<Rightarrow> error + py_value" where
  "TemperatureConverter_convert v from_unit to_unit =
     (if from_unit = to_unit then Inr v
      else if from_unit \<in> set UnitOfTemperature \<and> to_unit \<in> set UnitOfTemperature
      then case v of
             Str t \<Rightarrow> Inl TypeError
           | Float x \<Rightarrow>
               (case to_celsius x from_unit of
                  Inl e \<Rightarrow> Inl e
                | Inr c \<Rightarrow>
                    (case from_celsius c to_unit of
                       Inl e \<Rightarrow> Inl e
                     | Inr y \<Rightarrow> Inr (Float y)))
      else Inl HomeAssistantError)"

section \<open>Producing the updates of one polling cycle (\<open>_get_updates\<close>)\<close>

type_synonym updates = "int option \<rightharpoonup> int \<times> py_value option"
type_synonym timestamps = "int option \<rightharpoonup> int"

text \<open>\<open>d[key]\<close> raises \<open>KeyError\<close> for a missing key; \<open>d.get(key, default)\<close> does not.\<close>

definition subscript :: "('k \<rightharpoonup> 'v) \<Rightarrow> 'k \<Rightarrow> error + 'v" where
  "subscript d key = (case d key of None \<Rightarrow> Inl KeyError | Some v \<Rightarrow> Inr v)"

definition dict_get :: "('k \<rightharpoonup> 'v) \<Rightarrow> 'k \<Rightarrow> 'v \<Rightarrow> 'v" where
  "dict_get d key dflt = (case d key of None \<Rightarrow> dflt | Some v \<Rightarrow> v)"

text \<open>\<open>round\<close> of Python rounds a half to the even neighbour.\<close>

definition py_round :: "real \<Rightarrow> int" where
  "py_round x =
     (let f = \<lfloor>x\<rfloor>; d = x - of_int f
      in if d < 1 / 2 then f
         else if 1 / 2 < d then f + 1
         else if even f then f else f + 1)"

definition measurement_timestamp :: "State \<Rightarrow> int" where
  "measurement_timestamp st = py_round (last_reported st)"

text \<open>\<open>None if state.state in ("unavailable", "unknown") else state.state\<close>\<close>

definition value_of :: "string \<Rightarrow> py_value option" where
  "value_of t = (if t \<in> set [''unavailable'', ''unknown''] then None else Some (Str t))"

text \<open>The two checks; each reads an attribute by subscript.\<close>

definition wrong_device_class :: "AnnotatedSensor \<Rightarrow> State \<Rightarrow> error + bool" where
  "wrong_device_class sensor st =
     (case subscript (attributes st) ATTR_DEVICE_CLASS of
        Inl e \<Rightarrow> Inl e
      | Inr dc \<Rightarrow> Inr (dc \<noteq> MEASUREMENT_TYPE_DEVICE_CLASS_MAPPING (measurement_type sensor)))"

definition wrong_unit :: "AnnotatedSensor \<Rightarrow> State \<Rightarrow> error + bool" where
  "wrong_unit sensor st =
     (if measurement_type sensor = AMBIENT_TEMPERATURE
      then case subscript (attributes st) ATTR_UNIT_OF_MEASUREMENT of
             Inl e \<Rightarrow> Inl e
           | Inr u \<Rightarrow> Inr (u \<notin> set UnitOfTemperature)
      else Inr False)"

text \<open>The conversion to the unit of the network.\<close>

definition convert_value :: "State \<Rightarrow> py_value option \<Rightarrow> error + py_value option" where
  "convert_value st v =
     (case subscript (attributes st) ATTR_DEVICE_CLASS of
        Inl e \<Rightarrow> Inl e
      | Inr dc \<Rightarrow>
          (case v of
             None \<Rightarrow> Inr None
           | Some x \<Rightarrow>
               if dc = TEMPERATURE
               then case subscript (attributes st) ATTR_UNIT_OF_MEASUREMENT of
                      Inl e \<Rightarrow> Inl e
                    | Inr u \<Rightarrow>
                        (case TemperatureConverter_convert x u CELSIUS of
                           Inl e \<Rightarrow> Inl e
                         | Inr y \<Rightarrow> Inr (Some y))
               else Inr (Some x)))"

text \<open>
  The loop body up to the computation of the timestamp. \<open>Inr None\<close> is a \<open>continue\<close>:
  the sensor is skipped with a warning. \<open>Inl\<close> is an exception, which nothing in
  \<open>_get_updates\<close> catches.
\<close>

definition read_measurement ::
  "HomeAssistant \<Rightarrow> AnnotatedSensor \<Rightarrow> error + (int \<times> py_value option) option" where
  "read_measurement hass sensor =
     (case states hass (entity_id sensor) of
        None \<Rightarrow> Inr None
      | Some st \<Rightarrow>
          (case wrong_device_class sensor st of
             Inl e \<Rightarrow> Inl e
           | Inr True \<Rightarrow> Inr None
           | Inr False \<Rightarrow>
               (case wrong_unit sensor st of
                  Inl e \<Rightarrow> Inl e
                | Inr True \<Rightarrow> Inr None
                | Inr False \<Rightarrow>
                    (case convert_value st (value_of (state st)) of
                       Inl e \<Rightarrow> Inl e
                     | Inr v \<Rightarrow> Inr (Some (measurement_timestamp st, v))))))"

text \<open>
  The end of the loop body: a measurement whose timestamp equals the last one recorded for
  the sensor id (0 when there is none) is ignored, any other is recorded and reported.
\<close>

definition ignore_transmitted ::
  "int option \<Rightarrow> int \<times> py_value option \<Rightarrow> updates \<times> timestamps \<Rightarrow> updates \<times> timestamps" where
  "ignore_transmitted sid m acc =
     (if fst m \<noteq> dict_get (snd acc) sid 0
      then ((fst acc)(sid \<mapsto> m), (snd acc)(sid \<mapsto> fst m))
      else acc)"

text \<open>
  The loop over the sensors. The timestamps are an attribute of the client and are changed
  in place, so they are returned also when an exception ends the loop.
\<close>

fun get_updates_loop ::
  "HomeAssistant \<Rightarrow> AnnotatedSensor list \<Rightarrow> updates \<times> timestamps \<Rightarrow>
   (error + updates) \<times> timestamps" where
  "get_updates_loop hass [] acc = (Inr (fst acc), snd acc)"
| "get_updates_loop hass (sensor # ss) acc =
     (case read_measurement hass sensor of
        Inl e \<Rightarrow> (Inl e, snd acc)
      | Inr None \<Rightarrow> get_updates_loop hass ss acc
      | Inr (Some m) \<Rightarrow> get_updates_loop hass ss (ignore_transmitted (sensor_id sensor) m acc))"

section \<open>The client and the configuration store\<close>

record Coordinate =
  latitude :: "real option"
  longitude :: "real option"

record ClientConfig =
  location :: Coordinate
  tls_host :: string
  k :: int
  max_depth :: int
  sensors :: "AnnotatedSensor list"

record Client =
  config :: ClientConfig
  last_timestamps :: timestamps

text \<open>\<open>cls(hass=hass, config=client_config)\<close>: the timestamps start empty.\<close>

definition new_client :: "ClientConfig \<Rightarrow> Client" where
  "new_client cfg = \<lparr>config = cfg, last_timestamps = Map.empty\<rparr>"

definition get_updates :: "HomeAssistant \<Rightarrow> Client \<Rightarrow> (error + updates) \<times> Client" where
  "get_updates hass client =
     (let r = get_updates_loop hass (sensors (config client)) (Map.empty, last_timestamps client)
      in (fst r, client\<lparr>last_timestamps := snd r\<rparr>))"

text \<open>
  The polling loop of the inherited client calls \<open>_get_updates\<close> once per tick; the host's
  states may differ from tick to tick. An exception of the producer ends the loop.
\<close>

fun run_ticks :: "HomeAssistant list \<Rightarrow> Client \<Rightarrow> (error + updates) list" where
  "run_ticks [] client = []"
| "run_ticks (hass # hs) client =
     (case get_updates hass client of
        (Inl e, client') \<Rightarrow> [Inl e]
      | (Inr u, client') \<Rightarrow> Inr u # run_ticks hs client')"

text \<open>
  The helper storage under the key of the integration: the stored document, if any, and
  the log of the accesses made to it. The document is kept as the typed configuration
  that \<open>load_client_config\<close> rebuilds from the stored dictionary.
\<close>

datatype store_access = Load | Save | Remove

record Store =
  document :: "ClientConfig option"
  accesses :: "store_access list"

definition load_client_config :: "Store \<Rightarrow> Store \<times> (error + ClientConfig)" where
  "load_client_config store =
     (store\<lparr>accesses := accesses store @ [Load]\<rparr>,
      case document store of
        None \<Rightarrow> Inl FileNotFoundError
      | Some cfg \<Rightarrow> Inr cfg)"

definition persist_config :: "Client \<Rightarrow> Store \<Rightarrow> Store" where
  "persist_config client store =
     store\<lparr>document := Some (config client), accesses := accesses store @ [Save]\<rparr>"

text \<open>\<open>not x\<close> for an optional number.\<close>

definition falsy :: "real option \<Rightarrow> bool" where
  "falsy x \<longleftrightarrow> x = None \<or> x = Some 0"

definition host_location :: "HomeAssistant \<Rightarrow> Coordinate" where
  "host_location hass = \<lparr>latitude = config_latitude hass, longitude = config_longitude hass\<rparr>"

text \<open>The configuration built when the store holds none.\<close>

definition fresh_config :: "HomeAssistant \<Rightarrow> Data \<Rightarrow> Options \<Rightarrow> ClientConfig" where
  "fresh_config hass data options =
     \<lparr>location = host_location hass,
      tls_host = trixel_lookup_service_host data,
      k = k_privacy options,
      max_depth = maximum_trixel_depth options,
      sensors = concat (map (\<lambda>mt. map (\<lambda>e. new_sensor (mt, e)) (MEASUREMENT_TYPE_MAPPING mt options))
                            all_measurement_types)\<rparr>"

text \<open>The update of a loaded configuration.\<close>

definition update_config ::
  "HomeAssistant \<Rightarrow> Options option \<Rightarrow> ClientConfig \<Rightarrow> error + ClientConfig" where
  "update_config hass options cfg =
     (let cfg1 = cfg\<lparr>location := host_location hass\<rparr>
      in case options of
           None \<Rightarrow> Inr cfg1
         | Some opts \<Rightarrow>
             (let cfg2 = cfg1\<lparr>k := k_privacy opts, max_depth := maximum_trixel_depth opts\<rparr>
              in case reconcile_sensors (sensors cfg2) opts of
                   Inl e \<Rightarrow> Inl e
                 | Inr ss \<Rightarrow> Inr (cfg2\<lparr>sensors := ss\<rparr>)))"

text \<open>
  \<open>create\<close>. The result is the store after the call and either the exception raised or
  the client returned.
\<close>

definition create ::
  "HomeAssistant \<Rightarrow> Store \<Rightarrow> Data option \<Rightarrow> Options option \<Rightarrow> Store \<times> (error + Client)" where
  "create hass store data options =
     (if (falsy (config_latitude hass) \<and> falsy (config_longitude hass))
         \<or> (config_latitude hass = Some DEFAULT_HOME_LATITUDE
            \<and> config_longitude hass = Some DEFAULT_HOME_LONGITUDE)
      then (store, Inl NoHomeError)
      else case load_client_config store of
             (store', Inr cfg) \<Rightarrow>
               (case update_config hass options cfg of
                  Inl e \<Rightarrow> (store', Inl e)
                | Inr cfg' \<Rightarrow> (store', Inr (new_client cfg')))
           | (store', Inl e) \<Rightarrow>
               (case (data, options) of
                  (Some d, Some opts) \<Rightarrow> (store', Inr (new_client (fresh_config hass d opts)))
                | _ \<Rightarrow> (store', Inl NoExistingConfigurationError)))"

section \<open>Example inputs\<close>

definition sensor_a :: AnnotatedSensor where
  "sensor_a = \<lparr>measurement_type = AMBIENT_TEMPERATURE, sensor_id = Some 1,
                entity_id = Some ''sensor.a''\<rparr>"

definition sensor_b :: AnnotatedSensor where
  "sensor_b = \<lparr>measurement_type = RELATIVE_HUMIDITY, sensor_id = Some 2,
                entity_id = Some ''sensor.b''\<rparr>"

definition options_a_b :: Options where
  "options_a_b = \<lparr>k_privacy = 3, maximum_trixel_depth = 24,
                   outdoor_temperature_sensors = [''sensor.a'', ''sensor.b''],
                   outdoor_relative_humidity_sensors = []\<rparr>"

definition options_a_a :: Options where
  "options_a_a = \<lparr>k_privacy = 3, maximum_trixel_depth = 24,
                   outdoor_temperature_sensors = [''sensor.a'', ''sensor.a''],
                   outdoor_relative_humidity_sensors = []\<rparr>"

text \<open>A configuration, a host with a usable location, states and stores for the examples.\<close>

definition example_config :: "AnnotatedSensor list \<Rightarrow> ClientConfig" where
  "example_config ss =
     \<lparr>location = \<lparr>latitude = Some 48.1, longitude = Some 11.6\<rparr>,
      tls_host = ''tls.example.org'', k = 3, max_depth = 24, sensors = ss\<rparr>"

definition example_host :: "(string option \<rightharpoonup> State) \<Rightarrow> HomeAssistant" where
  "example_host sts = \<lparr>config_latitude = Some 48.1, config_longitude = Some 11.6, states = sts\<rparr>"

definition example_state :: "string \<Rightarrow> string \<Rightarrow> string \<Rightarrow> real \<Rightarrow> State" where
  "example_state dc u v t =
     \<lparr>state = v,
      attributes = [ATTR_DEVICE_CLASS \<mapsto> dc, ATTR_UNIT_OF_MEASUREMENT \<mapsto> u],
      last_reported = t\<rparr>"

definition state_without_device_class :: State where
  "state_without_device_class =
     \<lparr>state = ''21.5'',
      attributes = [ATTR_UNIT_OF_MEASUREMENT \<mapsto> CELSIUS],
      last_reported = 100\<rparr>"

definition client_a :: Client where
  "client_a = new_client (example_config [sensor_a])"

definition client_a_b :: Client where
  "client_a_b = new_client (example_config [sensor_a, sensor_b])"

definition celsius_at :: "real \<Rightarrow> State" where
  "celsius_at t = example_state TEMPERATURE CELSIUS ''21.5'' t"

definition humidity_state :: State where
  "humidity_state = example_state HUMIDITY ''%'' ''40'' 100"

definition store_with :: "ClientConfig \<Rightarrow> Store" where
  "store_with cfg = \<lparr>document = Some cfg, accesses = []\<rparr>"

definition empty_store :: Store where
  "empty_store = \<lparr>document = None, accesses = []\<rparr>"

definition host_a :: "State \<Rightarrow> HomeAssistant" where
  "host_a st = example_host [Some ''sensor.a'' \<mapsto> st]"

text \<open>Whether a cycle produced a batch that holds an entry for the sensor id.\<close>

definition emitted :: "int option \<Rightarrow> error + updates \<Rightarrow> bool" where
  "emitted sid r = (case r of Inl e \<Rightarrow> False | Inr u \<Rightarrow> u sid \<noteq> None)"

section \<open>Properties of the reconciliation\<close>

lemma entity_used_fold:
  "fold (\<lambda>sensor used.
             if measurement_type sensor = mt \<and> entity_id sensor = Some e then True else used)
          ss b \<longleftrightarrow> b \<or> (\<exists>s \<in> set ss. measurement_type s = mt \<and> entity_id s = Some e)"
  by (induction ss arbitrary: b) auto

lemma entity_used_iff:
  "entity_used ss mt e \<longleftrightarrow> (\<exists>s \<in> set ss. measurement_type s = mt \<and> entity_id s = Some e)"
  by (simp add: entity_used_def entity_used_fold)

lemma find_differences_eq:
  "find_differences ss opts =
     (orphaned_for_type ss AMBIENT_TEMPERATURE (outdoor_temperature_sensors opts)
        @ orphaned_for_type ss RELATIVE_HUMIDITY (outdoor_relative_humidity_sensors opts),
      new_for_type ss AMBIENT_TEMPERATURE (outdoor_temperature_sensors opts)
        @ new_for_type ss RELATIVE_HUMIDITY (outdoor_relative_humidity_sensors opts))"
  by (simp add: find_differences_def all_measurement_types_def diff_step_def Let_def)

lemma somes_simps [simp]:
  "somes [] = []" "somes (None # os) = somes os" "somes (Some x # os) = x # somes os"
  "somes (os @ os') = somes os @ somes os'"
  by (simp_all add: somes_def)

lemma somes_orphaned_for_type:
  "somes (orphaned_for_type ss mt ids) = filter (is_orphaned mt ids) ss"
  by (induction ss) (simp_all add: orphaned_for_type_def)

lemma filter_remove1_other:
  "\<not> Q x \<Longrightarrow> filter Q (remove1 x xs) = filter Q xs"
  by (induction xs) auto

lemma mset_filter_remove1:
  "P x \<Longrightarrow> mset (filter P (remove1 x xs)) = mset (filter P xs) - {#x#}"
  by (induction xs) auto

lemma remove_orphaned_filter:
  "mset (somes os) = mset (filter P ss) \<Longrightarrow>
   remove_orphaned os ss = Inr (filter (\<lambda>s. \<not> P s) ss)"
proof (induction os ss rule: remove_orphaned.induct)
  case (1 ss)
  then have "filter P ss = []" by simp
  then have "\<forall>s \<in> set ss. \<not> P s" by (simp add: filter_empty_conv)
  then show ?case by simp
next
  case (2 orphaned ss)
  then show ?case by simp
next
  case (3 sensor orphaned ss)
  from "3.prems" have in_f: "sensor \<in># mset (filter P ss)"
    by (metis somes_simps(3) mset.simps(2) union_single_eq_member)
  then have P: "P sensor" and mem: "sensor \<in> set ss" by auto
  have "mset (somes orphaned) = mset (filter P ss) - {#sensor#}"
    using "3.prems" by (metis add_mset_remove_trivial mset.simps(2) somes_simps(3))
  also have "\<dots> = mset (filter P (remove1 sensor ss))"
    using P by (simp only: mset_filter_remove1)
  finally have "remove_orphaned orphaned (remove1 sensor ss)
                  = Inr (filter (\<lambda>s. \<not> P s) (remove1 sensor ss))"
    using "3.IH" mem by (simp add: list_remove_def)
  then show ?case using P mem
    by (simp add: list_remove_def filter_remove1_other)
qed

lemma orphan_cases:
  "is_orphaned AMBIENT_TEMPERATURE (outdoor_temperature_sensors opts) s
   \<or> is_orphaned RELATIVE_HUMIDITY (outdoor_relative_humidity_sensors opts) s
   \<longleftrightarrow> \<not> still_desired opts s"
  by (cases "measurement_type s") (auto simp: is_orphaned_def still_desired_def)

lemma mset_orphans:
  "mset (filter (is_orphaned AMBIENT_TEMPERATURE a) ss) + mset (filter (is_orphaned RELATIVE_HUMIDITY b) ss)
   = mset (filter (\<lambda>s. is_orphaned AMBIENT_TEMPERATURE a s \<or> is_orphaned RELATIVE_HUMIDITY b s) ss)"
  by (induction ss) (auto simp: is_orphaned_def)

lemma remove_orphaned_eq:
  "remove_orphaned (fst (find_differences ss opts)) ss = Inr (filter (still_desired opts) ss)"
proof -
  have "remove_orphaned (fst (find_differences ss opts)) ss
        = Inr (filter (\<lambda>s. \<not> \<not> still_desired opts s) ss)"
    by (rule remove_orphaned_filter)
       (simp add: find_differences_eq somes_orphaned_for_type mset_orphans orphan_cases
             del: mset_filter)
  then show ?thesis by simp
qed

lemma reconcile_sensors_eq:
  "reconcile_sensors ss opts =
     Inr (filter (still_desired opts) ss @ map new_sensor (snd (find_differences ss opts)))"
  by (simp add: reconcile_sensors_def Let_def remove_orphaned_eq add_new_sensors_def)

lemma still_desired_new:
  "e \<in> set (MEASUREMENT_TYPE_MAPPING mt opts) \<Longrightarrow> still_desired opts (new_sensor (mt, e))"
  by (simp add: still_desired_def new_sensor_def)

lemma new_in_options:
  "(mt, e) \<in> set (snd (find_differences ss opts)) \<Longrightarrow> e \<in> set (MEASUREMENT_TYPE_MAPPING mt opts)"
  by (auto simp: find_differences_eq new_for_type_def)

lemma new_iff:
  "(mt, e) \<in> set (snd (find_differences ss opts)) \<longleftrightarrow>
     e \<in> set (MEASUREMENT_TYPE_MAPPING mt opts) \<and> \<not> entity_used ss mt e"
  by (cases mt) (auto simp: find_differences_eq new_for_type_def)

lemma somes_orphaned:
  "somes (fst (find_differences ss opts)) =
     filter (is_orphaned AMBIENT_TEMPERATURE (outdoor_temperature_sensors opts)) ss
     @ filter (is_orphaned RELATIVE_HUMIDITY (outdoor_relative_humidity_sensors opts)) ss"
  by (simp add: find_differences_eq somes_orphaned_for_type)

lemma set_somes_orphaned:
  "set (somes (fst (find_differences ss opts))) = {s \<in> set ss. \<not> still_desired opts s}"
  using orphan_cases [of opts] by (auto simp: somes_orphaned)

lemma all_desired_no_diff:
  assumes all: "\<forall>s \<in> set ss. still_desired opts s"
    and used: "\<forall>mt e. e \<in> set (MEASUREMENT_TYPE_MAPPING mt opts) \<longrightarrow> entity_used ss mt e"
  shows "snd (find_differences ss opts) = [] \<and> somes (fst (find_differences ss opts)) = []"
proof
  have "p \<notin> set (snd (find_differences ss opts))" for p
    using used by (cases p) (simp add: new_iff)
  then show "snd (find_differences ss opts) = []"
    by (metis hd_in_set)
  have "s \<notin> set (somes (fst (find_differences ss opts)))" for s
    using all by (simp add: set_somes_orphaned)
  then show "somes (fst (find_differences ss opts)) = []"
    by (metis hd_in_set)
qed

text \<open>
  Claim C1. Reconciliation is idempotent. For every sensor list and every options
  dictionary, the reconciliation raises nothing, and reconciling its result again with the
  same options finds nothing to add (\<open>new_sensors\<close> is empty) and nothing to remove (no
  entry of \<open>orphaned_sensors\<close> is a sensor).
\<close>

theorem reconcile_idempotent:
  "\<exists>ss'. reconcile_sensors ss opts = Inr ss'
         \<and> snd (find_differences ss' opts) = []
         \<and> somes (fst (find_differences ss' opts)) = []"
proof -
  define ss' where "ss' = filter (still_desired opts) ss @ map new_sensor (snd (find_differences ss opts))"
  have r: "reconcile_sensors ss opts = Inr ss'"
    by (simp add: reconcile_sensors_eq ss'_def)
  have all: "\<forall>s \<in> set ss'. still_desired opts s"
    by (auto simp: ss'_def dest: new_in_options intro: still_desired_new)
  have used: "entity_used ss' mt e" if e: "e \<in> set (MEASUREMENT_TYPE_MAPPING mt opts)" for mt e
  proof (cases "entity_used ss mt e")
    case True
    then obtain s where s: "s \<in> set ss" "measurement_type s = mt" "entity_id s = Some e"
      by (auto simp: entity_used_iff)
    with e have "still_desired opts s" by (simp add: still_desired_def)
    with s show ?thesis by (auto simp: entity_used_iff ss'_def)
  next
    case False
    with e have "(mt, e) \<in> set (snd (find_differences ss opts))" by (simp add: new_iff)
    then have "new_sensor (mt, e) \<in> set ss'" by (simp add: ss'_def)
    then show ?thesis
      unfolding entity_used_iff by (rule bexI [rotated]) (simp add: new_sensor_def)
  qed
  from all used have "snd (find_differences ss' opts) = [] \<and> somes (fst (find_differences ss' opts)) = []"
    by (intro all_desired_no_diff) auto
  with r show ?thesis by blast
qed

lemma distinct_new:
  assumes "distinct (outdoor_temperature_sensors opts)" "distinct (outdoor_relative_humidity_sensors opts)"
  shows "distinct (snd (find_differences ss opts))"
  using assms by (auto simp: find_differences_eq new_for_type_def distinct_map inj_on_def)

lemma new_not_existing:
  "(mt, e) \<in> set (snd (find_differences ss opts)) \<Longrightarrow> (mt, Some e) \<notin> set (map sensor_key ss)"
  by (auto simp: new_iff entity_used_iff sensor_key_def)

text \<open>
  Claim C2, amended. Let the sensor list hold at most one sensor per pair of measurement
  type and entity id, and let each selection of the options name an entity id at most once.
  Then no pair that is added is already in the list, no sensor taken for removal has its
  entity id in the selection of its measurement type, every sensor that is still selected
  stays in the list, and the resulting list holds at most one sensor per pair.
\<close>

theorem reconcile_keeps_keys_unique:
  assumes E: "distinct (map sensor_key ss)"
    and D: "distinct (outdoor_temperature_sensors opts)"
           "distinct (outdoor_relative_humidity_sensors opts)"
  shows "(\<forall>p \<in> set (snd (find_differences ss opts)). (fst p, Some (snd p)) \<notin> set (map sensor_key ss))
       \<and> (\<forall>s \<in> set (somes (fst (find_differences ss opts))). \<not> still_desired opts s)
       \<and> (\<exists>ss'. reconcile_sensors ss opts = Inr ss'
                \<and> (\<forall>s \<in> set ss. still_desired opts s \<longrightarrow> s \<in> set ss')
                \<and> distinct (map sensor_key ss'))"
proof (intro conjI)
  show "\<forall>p \<in> set (snd (find_differences ss opts)). (fst p, Some (snd p)) \<notin> set (map sensor_key ss)"
    using new_not_existing [of _ _ ss opts] by auto
  show "\<forall>s \<in> set (somes (fst (find_differences ss opts))). \<not> still_desired opts s"
    by (simp add: set_somes_orphaned)
  define new where "new = snd (find_differences ss opts)"
  have k: "map sensor_key (map new_sensor new) = map (\<lambda>p. (fst p, Some (snd p))) new"
    by (simp add: sensor_key_def new_sensor_def)
  have d1: "distinct (map sensor_key (filter (still_desired opts) ss))"
    using E by (simp add: distinct_map_filter)
  have d2: "distinct (map sensor_key (map new_sensor new))"
    unfolding k using distinct_new [OF D, of ss]
    by (auto simp: distinct_map new_def inj_on_def prod_eq_iff)
  have "(fst p, Some (snd p)) \<notin> sensor_key ` set ss" if "p \<in> set new" for p
    using that new_not_existing [of "fst p" "snd p" ss opts] by (simp add: new_def)
  then have d3: "set (map sensor_key (filter (still_desired opts) ss))
                   \<inter> set (map sensor_key (map new_sensor new)) = {}"
    unfolding k by force
  have "distinct (map sensor_key (filter (still_desired opts) ss @ map new_sensor new))"
    using d1 d2 d3 by (simp only: map_append distinct_append)
  then show "\<exists>ss'. reconcile_sensors ss opts = Inr ss'
                \<and> (\<forall>s \<in> set ss. still_desired opts s \<longrightarrow> s \<in> set ss')
                \<and> distinct (map sensor_key ss')"
    by (simp add: reconcile_sensors_eq new_def)
qed

lemmas reconcile_eval =
  reconcile_sensors_def find_differences_def all_measurement_types_def diff_step_def
  orphaned_for_type_def new_for_type_def entity_used_def add_new_sensors_def is_orphaned_def
  list_remove_def new_sensor_def sensor_key_def somes_def

theorem reconcile_idempotent_witness:
  "reconcile_sensors [sensor_a, sensor_b] options_a_b
     = Inr [sensor_a, new_sensor (AMBIENT_TEMPERATURE, ''sensor.b'')]
   \<and> snd (find_differences [sensor_a, new_sensor (AMBIENT_TEMPERATURE, ''sensor.b'')] options_a_b) = []
   \<and> somes (fst (find_differences [sensor_a, new_sensor (AMBIENT_TEMPERATURE, ''sensor.b'')]
                                   options_a_b)) = []"
proof -
  have r: "reconcile_sensors [sensor_a, sensor_b] options_a_b
             = Inr [sensor_a, new_sensor (AMBIENT_TEMPERATURE, ''sensor.b'')]"
    by (simp add: reconcile_eval sensor_a_def sensor_b_def options_a_b_def)
  from reconcile_idempotent [of "[sensor_a, sensor_b]" options_a_b] r
  show ?thesis by simp
qed

theorem reconcile_keeps_keys_unique_witness:
  "distinct (map sensor_key [sensor_a])
   \<and> distinct (outdoor_temperature_sensors options_a_b)
   \<and> distinct (outdoor_relative_humidity_sensors options_a_b)
   \<and> reconcile_sensors [sensor_a] options_a_b
       = Inr [sensor_a, new_sensor (AMBIENT_TEMPERATURE, ''sensor.b'')]
   \<and> distinct (map sensor_key [sensor_a, new_sensor (AMBIENT_TEMPERATURE, ''sensor.b'')])"
proof -
  have h: "distinct (map sensor_key [sensor_a])"
          "distinct (outdoor_temperature_sensors options_a_b)"
          "distinct (outdoor_relative_humidity_sensors options_a_b)"
    by (simp_all add: options_a_b_def)
  have r: "reconcile_sensors [sensor_a] options_a_b
             = Inr [sensor_a, new_sensor (AMBIENT_TEMPERATURE, ''sensor.b'')]"
    by (simp add: reconcile_eval sensor_a_def options_a_b_def)
  from reconcile_keeps_keys_unique [OF h] h r show ?thesis by simp
qed

text \<open>
  Claim C2 as stated fails when a selection names an entity id twice: the empty sensor list
  has no duplicate, the entity is not in use at either occurrence, and both are appended.
\<close>

theorem reconcile_duplicate_selection_counterexample:
  "distinct (map sensor_key [])
   \<and> reconcile_sensors [] options_a_a
       = Inr [new_sensor (AMBIENT_TEMPERATURE, ''sensor.a''),
              new_sensor (AMBIENT_TEMPERATURE, ''sensor.a'')]
   \<and> \<not> distinct (map sensor_key [new_sensor (AMBIENT_TEMPERATURE, ''sensor.a''),
                                    new_sensor (AMBIENT_TEMPERATURE, ''sensor.a'')])"
  by (simp add: reconcile_eval options_a_a_def)

section \<open>Properties of a polling cycle\<close>

lemma ignore_transmitted_at:
  "fst (ignore_transmitted sid m acc) sid
     = (if fst m \<noteq> dict_get (snd acc) sid 0 then Some m else fst acc sid)"
  "snd (ignore_transmitted sid m acc) sid
     = (if fst m \<noteq> dict_get (snd acc) sid 0 then Some (fst m) else snd acc sid)"
  by (simp_all add: ignore_transmitted_def)

lemma ignore_transmitted_other:
  "key \<noteq> sid \<Longrightarrow> fst (ignore_transmitted sid m acc) key = fst acc key"
  "key \<noteq> sid \<Longrightarrow> snd (ignore_transmitted sid m acc) key = snd acc key"
  by (simp_all add: ignore_transmitted_def)

lemma loop_other_keys_cache:
  "key \<notin> set (map sensor_id ss) \<Longrightarrow> snd (get_updates_loop hass ss acc) key = snd acc key"
  by (induction ss arbitrary: acc)
     (auto simp: ignore_transmitted_other split: sum.splits option.splits)

lemma loop_other_keys_updates:
  "key \<notin> set (map sensor_id ss) \<Longrightarrow> fst (get_updates_loop hass ss acc) = Inr u'
   \<Longrightarrow> u' key = fst acc key"
  by (induction ss arbitrary: acc)
     (auto simp: ignore_transmitted_other split: sum.splits option.splits)

lemma loop_key:
  assumes "s \<in> set ss" and "distinct (map sensor_id ss)"
    and "fst (get_updates_loop hass ss acc) = Inr u'"
  shows "(read_measurement hass s = Inr None
          \<and> u' (sensor_id s) = fst acc (sensor_id s)
          \<and> snd (get_updates_loop hass ss acc) (sensor_id s) = snd acc (sensor_id s))
       \<or> (\<exists>m. read_measurement hass s = Inr (Some m)
          \<and> u' (sensor_id s) = (if fst m \<noteq> dict_get (snd acc) (sensor_id s) 0 then Some m
                                 else fst acc (sensor_id s))
          \<and> snd (get_updates_loop hass ss acc) (sensor_id s)
              = (if fst m \<noteq> dict_get (snd acc) (sensor_id s) 0 then Some (fst m)
                 else snd acc (sensor_id s)))"
  using assms
proof (induction ss arbitrary: acc)
  case Nil
  then show ?case by simp
next
  case (Cons x ss)
  show ?case
  proof (cases "s = x")
    case True
    have notin: "sensor_id s \<notin> set (map sensor_id ss)"
      using Cons.prems(2) True by simp
    show ?thesis
    proof (cases "read_measurement hass x")
      case (Inl e)
      with Cons.prems(3) show ?thesis by simp
    next
      case (Inr r)
      show ?thesis
      proof (cases r)
        case None
        with Inr Cons.prems(3) True show ?thesis
          using loop_other_keys_cache [OF notin, of hass acc]
            loop_other_keys_updates [OF notin, of hass acc u'] by simp
      next
        case (Some m)
        let ?acc = "ignore_transmitted (sensor_id x) m acc"
        from Some Inr Cons.prems(3) have "fst (get_updates_loop hass ss ?acc) = Inr u'"
          by simp
        with loop_other_keys_cache [OF notin, of hass ?acc]
          loop_other_keys_updates [OF notin, of hass ?acc u']
        have "u' (sensor_id s) = fst ?acc (sensor_id s)"
          "snd (get_updates_loop hass ss ?acc) (sensor_id s) = snd ?acc (sensor_id s)"
          by simp_all
        with Some Inr True show ?thesis
          by (simp add: ignore_transmitted_at)
      qed
    qed
  next
    case False
    with Cons.prems(1) have s: "s \<in> set ss" by simp
    from Cons.prems(2) have d: "distinct (map sensor_id ss)" by simp
    from Cons.prems(2) have "sensor_id x \<notin> sensor_id ` set ss" by simp
    with s have ne: "sensor_id s \<noteq> sensor_id x" by (metis imageI)
    show ?thesis
    proof (cases "read_measurement hass x")
      case (Inl e)
      with Cons.prems(3) show ?thesis by simp
    next
      case (Inr r)
      show ?thesis
      proof (cases r)
        case None
        with Inr Cons.prems(3) Cons.IH [OF s d, of acc] show ?thesis by simp
      next
        case (Some m)
        let ?acc = "ignore_transmitted (sensor_id x) m acc"
        from Some Inr Cons.prems(3) have "fst (get_updates_loop hass ss ?acc) = Inr u'"
          by simp
        note ih = Cons.IH [OF s d this]
        have e: "fst ?acc (sensor_id s) = fst acc (sensor_id s)"
                "snd ?acc (sensor_id s) = snd acc (sensor_id s)"
          using ne by (simp_all add: ignore_transmitted_other)
        then have g: "dict_get (snd ?acc) (sensor_id s) 0 = dict_get (snd acc) (sensor_id s) 0"
          by (simp add: dict_get_def)
        from ih show ?thesis
          unfolding e g using Some Inr by simp
      qed
    qed
  qed
qed

lemma get_updates_config: "config (snd (get_updates hass client)) = config client"
  by (simp add: get_updates_def Let_def)

lemma get_updates_key:
  assumes "s \<in> set (sensors (config client))"
    and "distinct (map sensor_id (sensors (config client)))"
    and "get_updates hass client = (Inr u', client')"
  shows "(read_measurement hass s = Inr None
          \<and> u' (sensor_id s) = None
          \<and> last_timestamps client' (sensor_id s) = last_timestamps client (sensor_id s))
       \<or> (\<exists>m. read_measurement hass s = Inr (Some m)
          \<and> u' (sensor_id s)
              = (if fst m \<noteq> dict_get (last_timestamps client) (sensor_id s) 0 then Some m else None)
          \<and> last_timestamps client' (sensor_id s)
              = (if fst m \<noteq> dict_get (last_timestamps client) (sensor_id s) 0 then Some (fst m)
                 else last_timestamps client (sensor_id s)))"
proof -
  let ?r = "get_updates_loop hass (sensors (config client)) (Map.empty, last_timestamps client)"
  from assms(3) have f: "fst ?r = Inr u'" and c: "last_timestamps client' = snd ?r"
    by (auto simp: get_updates_def Let_def)
  from loop_key [OF assms(1,2) f] show ?thesis
    unfolding c by (simp only: fst_conv snd_conv)
qed

lemma read_measurement_sentinel:
  assumes "states hass (entity_id s) = Some st" and "value_of (state st) = None"
  shows "read_measurement hass s =
           (case wrong_device_class s st of
              Inl e \<Rightarrow> Inl e
            | Inr True \<Rightarrow> Inr None
            | Inr False \<Rightarrow>
                (case wrong_unit s st of
                   Inl e \<Rightarrow> Inl e
                 | Inr True \<Rightarrow> Inr None
                 | Inr False \<Rightarrow> Inr (Some (measurement_timestamp st, None))))"
  using assms
  by (auto simp: read_measurement_def wrong_device_class_def convert_value_def
           split: sum.splits bool.splits option.splits)

lemma wrong_device_class_passes:
  "wrong_device_class s st = Inr False \<longleftrightarrow>
     attributes st ATTR_DEVICE_CLASS
       = Some (MEASUREMENT_TYPE_DEVICE_CLASS_MAPPING (measurement_type s))"
  by (auto simp: wrong_device_class_def subscript_def split: option.splits)

lemma wrong_unit_passes:
  "wrong_unit s st = Inr False \<longleftrightarrow>
     measurement_type s = RELATIVE_HUMIDITY
     \<or> attributes st ATTR_UNIT_OF_MEASUREMENT \<in> set (map Some UnitOfTemperature)"
  by (cases "measurement_type s")
     (auto simp: wrong_unit_def subscript_def split: option.splits)

lemma sentinel_entry:
  assumes "s \<in> set (sensors (config client))"
    and "distinct (map sensor_id (sensors (config client)))"
    and "states hass (entity_id s) = Some st"
    and "state st = ''unavailable'' \<or> state st = ''unknown''"
    and "get_updates hass client = (Inr u', client')"
  shows "u' (sensor_id s) =
           (if wrong_device_class s st = Inr False \<and> wrong_unit s st = Inr False
               \<and> measurement_timestamp st \<noteq> dict_get (last_timestamps client) (sensor_id s) 0
            then Some (measurement_timestamp st, None)
            else None)"
proof -
  from assms(4) have v: "value_of (state st) = None" by (auto simp: value_of_def)
  note r = read_measurement_sentinel [OF assms(3) v]
  from get_updates_key [OF assms(1,2,5)] show ?thesis
    unfolding r by (auto split: sum.splits bool.splits if_splits)
qed

text \<open>
  Claim C5. Let a cycle produce its batch, and let the state of a sensor (whose id no other
  configured sensor has) be \<open>unavailable\<close> or \<open>unknown\<close>. The sentinel is no reason to
  leave the sensor out, and the checks are applied as for any other state: the batch holds
  the entry of the sensor, with the value \<open>None\<close>, exactly when the attribute
  \<open>device_class\<close> is the class mapped to the measurement type of the sensor, the attribute
  \<open>unit_of_measurement\<close> of an ambient-temperature sensor is a temperature unit, and the
  timestamp is not the one last recorded; otherwise it holds no entry for the sensor.
\<close>

theorem sentinel_reported_as_null:
  assumes "s \<in> set (sensors (config client))"
    and "distinct (map sensor_id (sensors (config client)))"
    and "states hass (entity_id s) = Some st"
    and "state st = ''unavailable'' \<or> state st = ''unknown''"
    and "get_updates hass client = (Inr u', client')"
  shows "u' (sensor_id s) =
           (if attributes st ATTR_DEVICE_CLASS
                 = Some (MEASUREMENT_TYPE_DEVICE_CLASS_MAPPING (measurement_type s))
               \<and> (measurement_type s = RELATIVE_HUMIDITY
                  \<or> attributes st ATTR_UNIT_OF_MEASUREMENT \<in> set (map Some UnitOfTemperature))
               \<and> measurement_timestamp st \<noteq> dict_get (last_timestamps client) (sensor_id s) 0
            then Some (measurement_timestamp st, None)
            else None)"
  using sentinel_entry [OF assms]
  by (simp only: wrong_device_class_passes wrong_unit_passes)

lemmas update_eval =
  get_updates_def read_measurement_def wrong_device_class_def wrong_unit_def convert_value_def
  subscript_def dict_get_def ignore_transmitted_def measurement_timestamp_def py_round_def
  TemperatureConverter_convert_def to_celsius_def from_celsius_def UnitOfTemperature_def
  CELSIUS_def FAHRENHEIT_def KELVIN_def TEMPERATURE_def HUMIDITY_def ATTR_DEVICE_CLASS_def
  ATTR_UNIT_OF_MEASUREMENT_def new_client_def Let_def emitted_def value_of_def
  example_config_def example_host_def example_state_def host_a_def client_a_def client_a_b_def
  celsius_at_def humidity_state_def state_without_device_class_def sensor_a_def sensor_b_def

text \<open>
  Claim C3. Let a cycle produce its batch, and let a sensor whose id no other configured
  sensor has pass the state read and the checks with the timestamp \<open>ts\<close>. Then the batch
  holds an entry for the sensor id exactly when \<open>ts\<close> differs from the timestamp last
  recorded for that id, 0 standing for none recorded; the entry is the timestamp with the
  value read; and \<open>ts\<close> is recorded exactly when the entry is made. In particular the
  timestamps 100, 100, 101, 100 of one sensor, read in four successive cycles, give the
  decisions true, false, true, true.
\<close>

theorem dedup_by_last_timestamp:
  assumes "s \<in> set (sensors (config client))"
    and "distinct (map sensor_id (sensors (config client)))"
    and "read_measurement hass s = Inr (Some (ts, v))"
    and "get_updates hass client = (Inr u', client')"
  shows "(u' (sensor_id s) \<noteq> None \<longleftrightarrow> ts \<noteq> dict_get (last_timestamps client) (sensor_id s) 0)
       \<and> (u' (sensor_id s) \<noteq> None \<longrightarrow> u' (sensor_id s) = Some (ts, v))
       \<and> last_timestamps client' (sensor_id s)
           = (if ts \<noteq> dict_get (last_timestamps client) (sensor_id s) 0 then Some ts
              else last_timestamps client (sensor_id s))
       \<and> map (emitted (Some 1))
              (run_ticks [host_a (celsius_at 100), host_a (celsius_at 100),
                          host_a (celsius_at 101), host_a (celsius_at 100)] client_a)
           = [True, False, True, True]"
proof -
  have seq: "map (emitted (Some 1))
              (run_ticks [host_a (celsius_at 100), host_a (celsius_at 100),
                          host_a (celsius_at 101), host_a (celsius_at 100)] client_a)
           = [True, False, True, True]"
    by (simp add: update_eval)
  from get_updates_key [OF assms(1,2,4)] assms(3) seq show ?thesis
    by auto
qed

theorem dedup_by_last_timestamp_witness:
  "sensor_a \<in> set (sensors (config client_a))
   \<and> distinct (map sensor_id (sensors (config client_a)))
   \<and> read_measurement (host_a (celsius_at 100)) sensor_a = Inr (Some (100, Some (Str ''21.5'')))
   \<and> fst (get_updates (host_a (celsius_at 100)) client_a) = Inr [Some 1 \<mapsto> (100, Some (Str ''21.5''))]
   \<and> last_timestamps (snd (get_updates (host_a (celsius_at 100)) client_a)) (Some 1) = Some 100"
proof -
  have h: "sensor_a \<in> set (sensors (config client_a))"
          "distinct (map sensor_id (sensors (config client_a)))"
          "read_measurement (host_a (celsius_at 100)) sensor_a = Inr (Some (100, Some (Str ''21.5'')))"
    by (simp_all add: update_eval)
  have g: "get_updates (host_a (celsius_at 100)) client_a
            = (Inr [Some 1 \<mapsto> (100, Some (Str ''21.5''))], snd (get_updates (host_a (celsius_at 100)) client_a))"
    by (simp add: update_eval)
  from dedup_by_last_timestamp [OF h g] h g show ?thesis
    by (simp add: update_eval)
qed

theorem sentinel_reported_as_null_witness:
  "sensor_a \<in> set (sensors (config client_a))
   \<and> distinct (map sensor_id (sensors (config client_a)))
   \<and> states (host_a (example_state TEMPERATURE CELSIUS ''unavailable'' 100)) (entity_id sensor_a)
       = Some (example_state TEMPERATURE CELSIUS ''unavailable'' 100)
   \<and> state (example_state TEMPERATURE CELSIUS ''unavailable'' 100) = ''unavailable''
   \<and> fst (get_updates (host_a (example_state TEMPERATURE CELSIUS ''unavailable'' 100)) client_a)
       = Inr [Some 1 \<mapsto> (100, None)]
   \<and> fst (get_updates (host_a (example_state HUMIDITY CELSIUS ''unavailable'' 100)) client_a)
       = Inr Map.empty
   \<and> fst (get_updates (host_a (example_state TEMPERATURE ''m'' ''unknown'' 100)) client_a)
       = Inr Map.empty"
proof -
  let ?st = "example_state TEMPERATURE CELSIUS ''unavailable'' 100"
  have h: "sensor_a \<in> set (sensors (config client_a))"
          "distinct (map sensor_id (sensors (config client_a)))"
          "states (host_a ?st) (entity_id sensor_a) = Some ?st"
          "state ?st = ''unavailable'' \<or> state ?st = ''unknown''"
    by (simp_all add: update_eval)
  have g: "get_updates (host_a ?st) client_a
            = (Inr [Some 1 \<mapsto> (100, None)], snd (get_updates (host_a ?st) client_a))"
    by (simp add: update_eval)
  have w: "fst (get_updates (host_a (example_state HUMIDITY CELSIUS ''unavailable'' 100)) client_a)
             = Inr Map.empty"
          "fst (get_updates (host_a (example_state TEMPERATURE ''m'' ''unknown'' 100)) client_a)
             = Inr Map.empty"
    by (simp_all add: update_eval)
  from sentinel_reported_as_null [OF h g] h g w show ?thesis
    by (simp add: update_eval)
qed

lemma wrong_unit_unrecognised:
  "measurement_type s = AMBIENT_TEMPERATURE \<Longrightarrow> attributes st ATTR_UNIT_OF_MEASUREMENT = Some u
   \<Longrightarrow> wrong_unit s st = Inr (u \<notin> set UnitOfTemperature)"
  by (simp add: wrong_unit_def subscript_def)

lemma read_measurement_wrong_unit:
  assumes "measurement_type s = AMBIENT_TEMPERATURE"
    and "states hass (entity_id s) = Some st"
    and "attributes st ATTR_UNIT_OF_MEASUREMENT = Some u"
    and "u \<notin> set UnitOfTemperature"
  shows "read_measurement hass s = Inr None \<or> read_measurement hass s = Inl KeyError"
  using assms
  by (auto simp: read_measurement_def wrong_unit_unrecognised wrong_device_class_def subscript_def
           split: option.splits sum.splits bool.splits)

lemma read_measurement_type_error:
  assumes "measurement_type s = AMBIENT_TEMPERATURE"
    and "states hass (entity_id s) = Some st"
    and "attributes st ATTR_DEVICE_CLASS = Some TEMPERATURE"
    and "attributes st ATTR_UNIT_OF_MEASUREMENT = Some u"
    and "u = FAHRENHEIT \<or> u = KELVIN"
    and "state st \<noteq> ''unavailable''" and "state st \<noteq> ''unknown''"
  shows "read_measurement hass s = Inl TypeError"
proof -
  have ne: "FAHRENHEIT \<noteq> CELSIUS" "KELVIN \<noteq> CELSIUS"
    by (simp_all add: FAHRENHEIT_def CELSIUS_def KELVIN_def)
  have units: "u \<in> set UnitOfTemperature" "CELSIUS \<in> set UnitOfTemperature" "u \<noteq> CELSIUS"
    using assms(5) ne by (auto simp: UnitOfTemperature_def)
  have dc: "wrong_device_class s st = Inr False"
    using assms(1,3) by (simp add: wrong_device_class_def subscript_def)
  have wu: "wrong_unit s st = Inr False"
    using assms(1,4) units(1) by (simp add: wrong_unit_unrecognised)
  have v: "value_of (state st) = Some (Str (state st))"
    using assms(6,7) by (simp add: value_of_def)
  have "TemperatureConverter_convert (Str (state st)) u CELSIUS = Inl TypeError"
    using units by (simp add: TemperatureConverter_convert_def)
  then have cv: "convert_value st (value_of (state st)) = Inl TypeError"
    using assms(3,4) v by (simp add: convert_value_def subscript_def)
  show ?thesis
    by (simp add: read_measurement_def assms(2) dc wu cv)
qed

text \<open>
  Claim C9. The claim fails on the code. The state of a temperature sensor is the text
  \<open>32\<close> with the unit Fahrenheit: the text is handed to the converter as it is, the
  conversion raises \<open>TypeError\<close>, and the cycle produces no batch, where the claim has an
  entry of 0 degrees Celsius. The converter itself takes the number 32 from Fahrenheit to
  0. A text in Celsius is entered unchanged, and a state with an unknown unit is skipped.
\<close>

theorem fahrenheit_reading_aborts_batch:
  "fst (get_updates (host_a (example_state TEMPERATURE FAHRENHEIT ''32'' 100)) client_a)
     = Inl TypeError
   \<and> TemperatureConverter_convert (Float 32) FAHRENHEIT CELSIUS = Inr (Float 0)
   \<and> fst (get_updates (host_a (example_state TEMPERATURE CELSIUS ''32'' 100)) client_a)
     = Inr [Some 1 \<mapsto> (100, Some (Str ''32''))]
   \<and> fst (get_updates (host_a (example_state TEMPERATURE ''m'' ''32'' 100)) client_a)
     = Inr Map.empty"
  by (simp add: update_eval)

text \<open>
  Claim C10. Let no timestamp be recorded for the id of a sensor (no other configured
  sensor having that id), and let the sensor pass the state read and the checks with the
  timestamp 0 in every cycle of a run. Then no cycle of the run produces a batch with an
  entry for the sensor: the default of the lookup makes the first reading look transmitted,
  and nothing is recorded, so this repeats until a reading has another timestamp.
\<close>

theorem first_reading_at_epoch_suppressed:
  assumes "s \<in> set (sensors (config client))"
    and "distinct (map sensor_id (sensors (config client)))"
    and "last_timestamps client (sensor_id s) = None"
    and "\<forall>h \<in> set hs. \<exists>v. read_measurement h s = Inr (Some (0, v))"
  shows "list_all (\<lambda>r. \<not> emitted (sensor_id s) r) (run_ticks hs client)"
  using assms
proof (induction hs arbitrary: client)
  case Nil
  then show ?case by simp
next
  case (Cons h hs)
  obtain r client' where g: "get_updates h client = (r, client')"
    by (cases "get_updates h client")
  show ?case
  proof (cases r)
    case (Inl e)
    with g show ?thesis by (simp add: emitted_def)
  next
    case (Inr u)
    from Cons.prems(4) obtain v where v: "read_measurement h s = Inr (Some (0, v))"
      by auto
    from g Inr have g': "get_updates h client = (Inr u, client')" by simp
    from get_updates_key [OF Cons.prems(1,2) g'] v Cons.prems(3)
    have u: "u (sensor_id s) = None" and c: "last_timestamps client' (sensor_id s) = None"
      by (auto simp: dict_get_def)
    have cfg: "config client' = config client"
      using get_updates_config [of h client] g by simp
    have "list_all (\<lambda>r. \<not> emitted (sensor_id s) r) (run_ticks hs client')"
      using Cons.IH [of client'] Cons.prems cfg c by simp
    with g' u show ?thesis by (simp add: emitted_def)
  qed
qed

theorem first_reading_at_epoch_suppressed_witness:
  "sensor_a \<in> set (sensors (config client_a))
   \<and> distinct (map sensor_id (sensors (config client_a)))
   \<and> last_timestamps client_a (sensor_id sensor_a) = None
   \<and> read_measurement (host_a (celsius_at 0)) sensor_a = Inr (Some (0, Some (Str ''21.5'')))
   \<and> map (emitted (Some 1)) (run_ticks [host_a (celsius_at 0), host_a (celsius_at 0)] client_a)
       = [False, False]
   \<and> map (emitted (Some 1))
          (run_ticks [host_a (celsius_at 0), host_a (celsius_at 0), host_a (celsius_at 60)] client_a)
       = [False, False, True]"
proof -
  have h: "sensor_a \<in> set (sensors (config client_a))"
          "distinct (map sensor_id (sensors (config client_a)))"
          "last_timestamps client_a (sensor_id sensor_a) = None"
    by (simp_all add: update_eval)
  have r: "read_measurement (host_a (celsius_at 0)) sensor_a = Inr (Some (0, Some (Str ''21.5'')))"
    by (simp add: update_eval)
  then have a: "\<forall>h \<in> set [host_a (celsius_at 0), host_a (celsius_at 0)].
                  \<exists>v. read_measurement h sensor_a = Inr (Some (0, v))"
    by simp
  have e: "map (emitted (Some 1))
          (run_ticks [host_a (celsius_at 0), host_a (celsius_at 0), host_a (celsius_at 60)] client_a)
       = [False, False, True]"
    by (simp add: update_eval)
  from first_reading_at_epoch_suppressed [OF h a] h r e show ?thesis
    by (simp add: update_eval)
qed

text \<open>
  Claim C4. The claim fails on the code. With two configured sensors, of which the first
  has a state without the attribute \<open>device_class\<close> and the second a valid humidity
  state, the subscript raises \<open>KeyError\<close> and the cycle produces no batch, so the update
  of the second sensor is lost. When the state of the first sensor is absent instead, the
  sensor is skipped and the batch holds the update of the second.
\<close>

theorem missing_device_class_aborts_batch:
  "fst (get_updates (example_host [Some ''sensor.a'' \<mapsto> state_without_device_class,
                                   Some ''sensor.b'' \<mapsto> humidity_state]) client_a_b)
     = Inl KeyError
   \<and> fst (get_updates (example_host [Some ''sensor.b'' \<mapsto> humidity_state]) client_a_b)
     = Inr [Some 2 \<mapsto> (100, Some (Str ''40''))]"
  by (simp add: update_eval)

section \<open>Properties of the creation\<close>

lemmas create_eval =
  create_def load_client_config_def update_config_def fresh_config_def host_location_def falsy_def
  DEFAULT_HOME_LATITUDE_def DEFAULT_HOME_LONGITUDE_def new_client_def persist_config_def

text \<open>
  Claim C7. When latitude and longitude of the host are both unset (\<open>None\<close> or 0), or
  equal the placeholder default, \<open>create\<close> raises \<open>NoHomeError\<close> and the store is
  returned as it was, with no access logged, whatever \<open>data\<close> and \<open>options\<close> are.
\<close>

theorem create_no_home:
  assumes "(falsy (config_latitude hass) \<and> falsy (config_longitude hass))
           \<or> (config_latitude hass = Some DEFAULT_HOME_LATITUDE
              \<and> config_longitude hass = Some DEFAULT_HOME_LONGITUDE)"
  shows "create hass store data options = (store, Inl NoHomeError)"
  using assms by (simp add: create_def)

theorem create_no_home_witness:
  "falsy None
   \<and> create \<lparr>config_latitude = None, config_longitude = None, states = Map.empty\<rparr>
        (store_with (example_config [sensor_a])) None (Some options_a_b)
       = (store_with (example_config [sensor_a]), Inl NoHomeError)
   \<and> create \<lparr>config_latitude = Some DEFAULT_HOME_LATITUDE,
              config_longitude = Some DEFAULT_HOME_LONGITUDE, states = Map.empty\<rparr>
        empty_store None None
       = (empty_store, Inl NoHomeError)"
proof -
  have f: "falsy None" by (simp add: falsy_def)
  let ?h1 = "\<lparr>config_latitude = None, config_longitude = None, states = Map.empty\<rparr>"
  let ?h2 = "\<lparr>config_latitude = Some DEFAULT_HOME_LATITUDE,
              config_longitude = Some DEFAULT_HOME_LONGITUDE, states = Map.empty\<rparr>"
  have a1: "(falsy (config_latitude ?h1) \<and> falsy (config_longitude ?h1))
           \<or> (config_latitude ?h1 = Some DEFAULT_HOME_LATITUDE
              \<and> config_longitude ?h1 = Some DEFAULT_HOME_LONGITUDE)"
    by (simp add: falsy_def)
  have a2: "(falsy (config_latitude ?h2) \<and> falsy (config_longitude ?h2))
           \<or> (config_latitude ?h2 = Some DEFAULT_HOME_LATITUDE
              \<and> config_longitude ?h2 = Some DEFAULT_HOME_LONGITUDE)"
    by simp
  from f create_no_home [OF a1] create_no_home [OF a2] show ?thesis by simp
qed

text \<open>
  Claim C8. When the location of the host is usable, the store holds no document, and
  \<open>data\<close> or \<open>options\<close> is not supplied (in particular when neither is), \<open>create\<close> raises
  \<open>NoExistingConfigurationError\<close> after the one load; no client is returned.
\<close>

theorem create_no_existing_configuration:
  assumes "\<not> (falsy (config_latitude hass) \<and> falsy (config_longitude hass))"
    and "\<not> (config_latitude hass = Some DEFAULT_HOME_LATITUDE
            \<and> config_longitude hass = Some DEFAULT_HOME_LONGITUDE)"
    and "document store = None"
    and "data = None \<or> options = None"
  shows "create hass store data options
           = (store\<lparr>accesses := accesses store @ [Load]\<rparr>, Inl NoExistingConfigurationError)"
  using assms by (auto simp: create_def load_client_config_def split: option.splits)

theorem create_no_existing_configuration_witness:
  "\<not> (falsy (config_latitude (example_host Map.empty))
       \<and> falsy (config_longitude (example_host Map.empty)))
   \<and> \<not> (config_latitude (example_host Map.empty) = Some DEFAULT_HOME_LATITUDE
         \<and> config_longitude (example_host Map.empty) = Some DEFAULT_HOME_LONGITUDE)
   \<and> document empty_store = None
   \<and> create (example_host Map.empty) empty_store None None
       = (\<lparr>document = None, accesses = [Load]\<rparr>, Inl NoExistingConfigurationError)"
proof -
  have h: "\<not> (falsy (config_latitude (example_host Map.empty))
       \<and> falsy (config_longitude (example_host Map.empty)))"
     "\<not> (config_latitude (example_host Map.empty) = Some DEFAULT_HOME_LATITUDE
         \<and> config_longitude (example_host Map.empty) = Some DEFAULT_HOME_LONGITUDE)"
     "document empty_store = None"
     "(None :: Data option) = None \<or> (None :: Options option) = None"
    by (simp_all add: example_host_def falsy_def DEFAULT_HOME_LATITUDE_def empty_store_def)
  from create_no_existing_configuration [OF h] h show ?thesis
    by (simp add: empty_store_def)
qed

text \<open>
  Claim C6, amended. \<open>create\<close> never writes to the store: the document is the same after
  the call, and the only access it makes is at most one load. The configuration is saved
  by \<open>_persist_config\<close> alone, which stores the configuration the client holds at that
  moment.
\<close>

theorem create_only_loads:
  "document (fst (create hass store data options)) = document store
   \<and> (accesses (fst (create hass store data options)) = accesses store
      \<or> accesses (fst (create hass store data options)) = accesses store @ [Load])
   \<and> document (persist_config client store') = Some (config client)
   \<and> accesses (persist_config client store') = accesses store' @ [Save]"
  by (auto simp: create_def load_client_config_def persist_config_def
           split: sum.splits option.splits prod.splits)

text \<open>
  Claim C6 as stated fails: \<open>create\<close> loads a configuration with one sensor, the options
  select a second entity, the returned client holds the reconciled configuration with two
  sensors, and the store still holds the configuration with one; its only access is the load.
\<close>

theorem create_reconciles_without_saving_counterexample:
  "fst (create (example_host Map.empty) (store_with (example_config [sensor_a])) None
              (Some options_a_b))
     = \<lparr>document = Some (example_config [sensor_a]), accesses = [Load]\<rparr>
   \<and> snd (create (example_host Map.empty) (store_with (example_config [sensor_a])) None
              (Some options_a_b))
     = Inr (new_client (example_config
              [sensor_a, new_sensor (AMBIENT_TEMPERATURE, ''sensor.b'')]))
   \<and> Some (example_config [sensor_a])
     \<noteq> Some (config (new_client (example_config
              [sensor_a, new_sensor (AMBIENT_TEMPERATURE, ''sensor.b'')])))"
  by (simp add: create_eval reconcile_eval example_host_def store_with_def example_config_def
        sensor_a_def options_a_b_def)

theorem create_only_loads_witness:
  "document (fst (create (example_host Map.empty) (store_with (example_config [sensor_a])) None
                         (Some options_a_b)))
     = Some (example_config [sensor_a])
   \<and> accesses (fst (create (example_host Map.empty) (store_with (example_config [sensor_a])) None
                           (Some options_a_b)))
     = [Load]
   \<and> document (persist_config client_a_b (store_with (example_config [sensor_a])))
     = Some (example_config [sensor_a, sensor_b])"
  using create_only_loads [of "example_host Map.empty" "store_with (example_config [sensor_a])"
                              None "Some options_a_b" client_a_b
                              "store_with (example_config [sensor_a])"]
  by (simp add: create_eval reconcile_eval example_host_def store_with_def example_config_def
        sensor_a_def options_a_b_def client_a_b_def)

end
